theory Spec2Isabelle
  imports Main "HOL-Library.Word" "HOL-Library.Product_Lexorder"
begin

unbundle bit_operations_syntax

section \<open>Machine types of WIABlob.h\<close>

type_synonym u8 = "8 word"
type_synonym u16 = "16 word"
type_synonym u32 = "32 word"
type_synonym u64 = "64 word"

subsection \<open>Memory image of an integer on the host\<close>

text \<open>
  The headers are read from and written to the file as raw structs. The
  comments on \<open>WIA_MAGIC\<close> and \<open>RVZ_MAGIC\<close> (``byteswapped to little endian'')
  fix the host byte order: the byte at the lowest address, which is the first
  byte in the file, is the least significant one.
\<close>

definition mem_bytes32 :: "u32 \<Rightarrow> u8 list" where
  "mem_bytes32 w = [ucast w, ucast (drop_bit 8 w), ucast (drop_bit 16 w), ucast (drop_bit 24 w)]"

definition mem_bytes64 :: "u64 \<Rightarrow> u8 list" where
  "mem_bytes64 w =
     [ucast w, ucast (drop_bit 8 w), ucast (drop_bit 16 w), ucast (drop_bit 24 w),
      ucast (drop_bit 32 w), ucast (drop_bit 40 w), ucast (drop_bit 48 w), ucast (drop_bit 56 w)]"

text \<open>The value a byte sequence denotes when read most significant byte first.\<close>

fun be_value :: "'a::len word \<Rightarrow> u8 list \<Rightarrow> 'a word" where
  "be_value acc [] = acc"
| "be_value acc (b # bs) = be_value (push_bit 8 acc OR ucast b) bs"

definition be32 :: "u8 list \<Rightarrow> u32" where
  "be32 bs = be_value 0 bs"

definition be64 :: "u8 list \<Rightarrow> u64" where
  "be64 bs = be_value 0 bs"

text \<open>
  Modelled from the spec: \<open>Common::swap32\<close> and \<open>Common::swap64\<close> live in
  Common/Swap.h, which is not part of the sources at hand. The spec calls their
  result the byte-swapped value; they are written here as the usual shift and
  mask expressions that reverse the order of the bytes.
\<close>

definition swap32 :: "u32 \<Rightarrow> u32" where
  "swap32 x =
     push_bit 24 x OR
     (push_bit 8 x AND 0x00FF0000) OR
     (drop_bit 8 x AND 0x0000FF00) OR
     drop_bit 24 x"

definition swap64 :: "u64 \<Rightarrow> u64" where
  "swap64 x =
     push_bit 56 x OR
     (push_bit 40 x AND 0x00FF000000000000) OR
     (push_bit 24 x AND 0x0000FF0000000000) OR
     (push_bit 8 x AND 0x000000FF00000000) OR
     (drop_bit 8 x AND 0x00000000FF000000) OR
     (drop_bit 24 x AND 0x0000000000FF0000) OR
     (drop_bit 40 x AND 0x000000000000FF00) OR
     drop_bit 56 x"

section \<open>Constants\<close>

datatype WIACompressionType = None_ct | Purge | Bzip2 | LZMA | LZMA2 | Zstd

definition WIA_MAGIC :: u32 where
  "WIA_MAGIC = 0x01414957"

definition RVZ_MAGIC :: u32 where
  "RVZ_MAGIC = 0x015A5652"

definition WIA_VERSION :: u32 where
  "WIA_VERSION = 0x01000000"

definition WIA_VERSION_WRITE_COMPATIBLE :: u32 where
  "WIA_VERSION_WRITE_COMPATIBLE = 0x01000000"

definition WIA_VERSION_READ_COMPATIBLE :: u32 where
  "WIA_VERSION_READ_COMPATIBLE = 0x00080000"

definition RVZ_VERSION :: u32 where
  "RVZ_VERSION = 0x00020000"

definition RVZ_VERSION_WRITE_COMPATIBLE :: u32 where
  "RVZ_VERSION_WRITE_COMPATIBLE = 0x00020000"

definition RVZ_VERSION_READ_COMPATIBLE :: u32 where
  "RVZ_VERSION_READ_COMPATIBLE = 0x00020000"

section \<open>Layout of the on-disk structs\<close>

text \<open>
  The structs between \<open>#pragma pack(push, 1)\<close> and \<open>#pragma pack(pop)\<close> are
  described by the types of their members, in declaration order. With a
  packing alignment of one byte every member starts where the previous one
  ends, so the size of a struct is the sum of the sizes of its members and the
  offset of a member is the size of the members before it.
\<close>

datatype ctype =
    U8 | U16 | U32 | U64
  | Array nat ctype
  | Struct "(string \<times> ctype) list"

fun sizeof :: "ctype \<Rightarrow> nat" where
  "sizeof U8 = 1"
| "sizeof U16 = 2"
| "sizeof U32 = 4"
| "sizeof U64 = 8"
| "sizeof (Array n t) = n * sizeof t"
| "sizeof (Struct fs) = sum_list (map (\<lambda>f. sizeof (snd f)) fs)"

fun offsetof :: "(string \<times> ctype) list \<Rightarrow> string \<Rightarrow> nat option" where
  "offsetof [] name = None"
| "offsetof (f # fs) name =
     (if fst f = name then Some 0
      else map_option (\<lambda>off. sizeof (snd f) + off) (offsetof fs name))"

definition SHA1 :: ctype where
  "SHA1 = Array 20 U8"

definition WiiKey :: ctype where
  "WiiKey = Array 16 U8"

definition WIAHeader1_fields :: "(string \<times> ctype) list" where
  "WIAHeader1_fields =
     [(''magic'', U32),
      (''version'', U32),
      (''version_compatible'', U32),
      (''header_2_size'', U32),
      (''header_2_hash'', SHA1),
      (''iso_file_size'', U64),
      (''wia_file_size'', U64),
      (''header_1_hash'', SHA1)]"

definition WIAHeader2_fields :: "(string \<times> ctype) list" where
  "WIAHeader2_fields =
     [(''disc_type'', U32),
      (''compression_type'', U32),
      (''compression_level'', U32),
      (''chunk_size'', U32),
      (''disc_header'', Array 0x80 U8),
      (''number_of_partition_entries'', U32),
      (''partition_entry_size'', U32),
      (''partition_entries_offset'', U64),
      (''partition_entries_hash'', SHA1),
      (''number_of_raw_data_entries'', U32),
      (''raw_data_entries_offset'', U64),
      (''raw_data_entries_size'', U32),
      (''number_of_group_entries'', U32),
      (''group_entries_offset'', U64),
      (''group_entries_size'', U32),
      (''compressor_data_size'', U8),
      (''compressor_data'', Array 7 U8)]"

definition PartitionDataEntry_fields :: "(string \<times> ctype) list" where
  "PartitionDataEntry_fields =
     [(''first_sector'', U32),
      (''number_of_sectors'', U32),
      (''group_index'', U32),
      (''number_of_groups'', U32)]"

definition PartitionEntry_fields :: "(string \<times> ctype) list" where
  "PartitionEntry_fields =
     [(''partition_key'', WiiKey),
      (''data_entries'', Array 2 (Struct PartitionDataEntry_fields))]"

definition RawDataEntry_fields :: "(string \<times> ctype) list" where
  "RawDataEntry_fields =
     [(''data_offset'', U64),
      (''data_size'', U64),
      (''group_index'', U32),
      (''number_of_groups'', U32)]"

definition GroupEntry_fields :: "(string \<times> ctype) list" where
  "GroupEntry_fields =
     [(''data_offset'', U32),
      (''data_size'', U32)]"

definition HashExceptionEntry_fields :: "(string \<times> ctype) list" where
  "HashExceptionEntry_fields =
     [(''offset'', U16),
      (''hash'', SHA1)]"

definition PurgeSegment_fields :: "(string \<times> ctype) list" where
  "PurgeSegment_fields =
     [(''offset'', U32),
      (''size'', U32)]"

section \<open>The on-disk records and the reader\<close>

text \<open>
  The header structs as the reader keeps them in \<open>m_header_1\<close> and
  \<open>m_header_2\<close>, and the entries of the three tables: every integer member
  holds the bytes of the file unchanged, so its numeric value on the host is
  the byte-swapped on-disk value. Byte arrays are lists of bytes.
\<close>

record WIAHeader1 =
  magic :: u32
  version :: u32
  version_compatible :: u32
  header_2_size :: u32
  header_2_hash :: "u8 list"
  iso_file_size :: u64
  wia_file_size :: u64
  header_1_hash :: "u8 list"

record WIAHeader2 =
  disc_type :: u32
  compression_type :: u32
  compression_level :: u32
  chunk_size :: u32
  disc_header :: "u8 list"
  number_of_partition_entries :: u32
  partition_entry_size :: u32
  partition_entries_offset :: u64
  partition_entries_hash :: "u8 list"
  number_of_raw_data_entries :: u32
  raw_data_entries_offset :: u64
  raw_data_entries_size :: u32
  number_of_group_entries :: u32
  group_entries_offset :: u64
  group_entries_size :: u32
  compressor_data_size :: u8
  compressor_data :: "u8 list"

record PartitionDataEntry =
  first_sector :: u32
  number_of_sectors :: u32
  group_index :: u32
  number_of_groups :: u32

record PartitionEntry =
  partition_key :: "u8 list"
  data_entries :: "PartitionDataEntry list"

record RawDataEntry =
  data_offset :: u64
  data_size :: u64
  group_index :: u32
  number_of_groups :: u32

record GroupEntry =
  data_offset :: u32
  data_size :: u32

record DataEntry =
  index :: u32
  is_partition :: bool
  partition_data_index :: u8

text \<open>
  The members of \<open>WIAFileReader\<close> that describe the container: the flags, the
  two headers, the three tables and the index from logical offsets to data
  entries (a \<open>std::map\<close>, kept as an association list in key order). The file
  handle, the cached chunk, the encryption cache and the exception list
  buffer are run-time state of \<open>Read\<close> and are left out.
\<close>

record WIAFileReader =
  m_valid :: bool
  m_rvz :: bool
  m_compression_type :: WIACompressionType
  m_header_1 :: WIAHeader1
  m_header_2 :: WIAHeader2
  m_partition_entries :: "PartitionEntry list"
  m_raw_data_entries :: "RawDataEntry list"
  m_group_entries :: "GroupEntry list"
  m_data_entries :: "(u64 \<times> DataEntry) list"

definition GetRawSize :: "WIAFileReader \<Rightarrow> u64" where
  "GetRawSize r = swap64 (wia_file_size (m_header_1 r))"

definition GetDataSize :: "WIAFileReader \<Rightarrow> u64" where
  "GetDataSize r = swap64 (iso_file_size (m_header_1 r))"

definition IsDataSizeAccurate :: "WIAFileReader \<Rightarrow> bool" where
  "IsDataSizeAccurate r = True"

definition GetBlockSize :: "WIAFileReader \<Rightarrow> u64" where
  "GetBlockSize r = ucast (swap32 (chunk_size (m_header_2 r)))"

definition HasFastRandomAccessInBlock :: "WIAFileReader \<Rightarrow> bool" where
  "HasFastRandomAccessInBlock r = False"

section \<open>Reuse identifiers\<close>

text \<open>
  \<open>ReuseID\<close> as declared in the source. The member \<open>partition_key\<close> is a
  pointer to a key; it is compared as a pointer, so it is modelled by the
  address it holds (0 for the null pointer).
\<close>

record ReuseID =
  partition_key :: nat
  data_size :: u64
  encrypted :: bool
  "value" :: u8

type_synonym reuse_tuple = "nat \<times> u64 \<times> bool \<times> u8"

text \<open>\<open>std::tie(partition_key, data_size, encrypted, value)\<close>\<close>

definition tie :: "ReuseID \<Rightarrow> reuse_tuple" where
  "tie r = (partition_key r, ReuseID.data_size r, encrypted r, value r)"

text \<open>
  The comparison operators of \<open>std::tuple\<close>: \<open>==\<close> compares member by member;
  \<open><\<close> walks the members from the first, answers true at the first member
  that is smaller, false at the first member that is greater, and false when
  no member differs; \<open>>\<close> is \<open><\<close> with the operands exchanged.
\<close>

fun tuple_eq :: "reuse_tuple \<Rightarrow> reuse_tuple \<Rightarrow> bool" where
  "tuple_eq (a0, a1, a2, a3) (b0, b1, b2, b3) = (a0 = b0 \<and> a1 = b1 \<and> a2 = b2 \<and> a3 = b3)"

fun tuple_less :: "reuse_tuple \<Rightarrow> reuse_tuple \<Rightarrow> bool" where
  "tuple_less (a0, a1, a2, a3) (b0, b1, b2, b3) =
     (if a0 < b0 then True else if b0 < a0 then False
      else if a1 < b1 then True else if b1 < a1 then False
      else if a2 < b2 then True else if b2 < a2 then False
      else if a3 < b3 then True else False)"

definition tuple_greater :: "reuse_tuple \<Rightarrow> reuse_tuple \<Rightarrow> bool" where
  "tuple_greater t u = tuple_less u t"

definition ReuseID_eq :: "ReuseID \<Rightarrow> ReuseID \<Rightarrow> bool" where
  "ReuseID_eq this other = tuple_eq (tie this) (tie other)"

definition ReuseID_less :: "ReuseID \<Rightarrow> ReuseID \<Rightarrow> bool" where
  "ReuseID_less this other = tuple_less (tie this) (tie other)"

definition ReuseID_greater :: "ReuseID \<Rightarrow> ReuseID \<Rightarrow> bool" where
  "ReuseID_greater this other = tuple_greater (tie this) (tie other)"

definition ReuseID_ne :: "ReuseID \<Rightarrow> ReuseID \<Rightarrow> bool" where
  "ReuseID_ne this other = (\<not> ReuseID_eq this other)"

definition ReuseID_ge :: "ReuseID \<Rightarrow> ReuseID \<Rightarrow> bool" where
  "ReuseID_ge this other = (\<not> ReuseID_less this other)"

definition ReuseID_le :: "ReuseID \<Rightarrow> ReuseID \<Rightarrow> bool" where
  "ReuseID_le this other = (\<not> ReuseID_greater this other)"

section \<open>Opening a container\<close>

text \<open>
  Modelled from the spec: the kinds of failure. The source at hand declares
  no error type (\<open>Create\<close> returns a pointer that is null on failure); the
  names are those of the error table of the spec.
\<close>

datatype error_kind =
    IoError | CorruptHeader | CorruptChunk | UnsupportedCompression | DataOverlap
  | WriteFailed | CallbackAborted

definition slice :: "nat \<Rightarrow> nat \<Rightarrow> u8 list \<Rightarrow> u8 list" where
  "slice off n bs = take n (drop off bs)"

text \<open>
  Reading an integer member of a raw struct: the host value whose memory image
  is the given bytes.
\<close>

definition load32 :: "u8 list \<Rightarrow> u32" where
  "load32 bs = be32 (rev bs)"

definition load64 :: "u8 list \<Rightarrow> u64" where
  "load64 bs = be64 (rev bs)"

text \<open>
  Modelled from the spec: reading header 1, the first 0x48 bytes of the file
  (step 1 of opening; the bodies of \<open>Create\<close> and \<open>Initialize\<close> are in
  WIABlob.cpp, which is not part of the sources at hand). The members sit at
  the offsets of the packed struct \<open>WIAHeader1\<close>. A file that is too short is
  a failed read.
\<close>

definition ReadHeader1 :: "u8 list \<Rightarrow> error_kind + WIAHeader1" where
  "ReadHeader1 file =
     (if length file < 0x48 then Inl IoError
      else Inr \<lparr>magic = load32 (slice 0 4 file),
                version = load32 (slice 4 4 file),
                version_compatible = load32 (slice 8 4 file),
                header_2_size = load32 (slice 12 4 file),
                header_2_hash = slice 16 20 file,
                iso_file_size = load64 (slice 36 8 file),
                wia_file_size = load64 (slice 44 8 file),
                header_1_hash = slice 52 20 file\<rparr>)"

text \<open>
  Modelled from the spec: ``verify magic and the version-compatibility window:
  reject if version < version_read_compatible_constant or if stored
  version_compatible > our_version'', the first failing with CorruptHeader and
  the second with UnsupportedCompression. The magic selects the variant and
  with it the constants. The result is the variant flag \<open>m_rvz\<close>.
\<close>

definition CheckHeader1 :: "WIAHeader1 \<Rightarrow> error_kind + bool" where
  "CheckHeader1 h =
     (if magic h \<noteq> WIA_MAGIC \<and> magic h \<noteq> RVZ_MAGIC then Inl CorruptHeader
      else
        let rvz = (magic h = RVZ_MAGIC);
            our_version = (if rvz then RVZ_VERSION else WIA_VERSION);
            read_compatible =
              (if rvz then RVZ_VERSION_READ_COMPATIBLE else WIA_VERSION_READ_COMPATIBLE)
        in if swap32 (version h) < read_compatible then Inl CorruptHeader
           else if our_version < swap32 (version_compatible h) then Inl UnsupportedCompression
           else Inr rvz)"

text \<open>
  Modelled from the spec: ``read Header-2 (size from header-1) and verify its
  hash against header-1'' (step 2 of opening). Header 2 follows header 1 in
  the file. SHA-1 comes from an external library and is a parameter. The
  members sit at the offsets of the packed struct \<open>WIAHeader2\<close>.
\<close>

definition ReadHeader2 ::
  "(u8 list \<Rightarrow> u8 list) \<Rightarrow> WIAHeader1 \<Rightarrow> u8 list \<Rightarrow> error_kind + WIAHeader2" where
  "ReadHeader2 sha1 h1 file =
     (let size = unat (swap32 (header_2_size h1));
          bytes = slice 0x48 size file
      in if length bytes < size then Inl IoError
         else if size < 0xdc then Inl CorruptHeader
         else if sha1 bytes \<noteq> header_2_hash h1 then Inl CorruptHeader
         else Inr \<lparr>disc_type = load32 (slice 0 4 bytes),
                   compression_type = load32 (slice 4 4 bytes),
                   compression_level = load32 (slice 8 4 bytes),
                   chunk_size = load32 (slice 12 4 bytes),
                   disc_header = slice 16 0x80 bytes,
                   number_of_partition_entries = load32 (slice 144 4 bytes),
                   partition_entry_size = load32 (slice 148 4 bytes),
                   partition_entries_offset = load64 (slice 152 8 bytes),
                   partition_entries_hash = slice 160 20 bytes,
                   number_of_raw_data_entries = load32 (slice 180 4 bytes),
                   raw_data_entries_offset = load64 (slice 184 8 bytes),
                   raw_data_entries_size = load32 (slice 192 4 bytes),
                   number_of_group_entries = load32 (slice 196 4 bytes),
                   group_entries_offset = load64 (slice 200 8 bytes),
                   group_entries_size = load32 (slice 208 4 bytes),
                   compressor_data_size = (case slice 212 1 bytes of [] \<Rightarrow> 0 | b # bs \<Rightarrow> b),
                   compressor_data = slice 213 7 bytes\<rparr>)"

text \<open>
  The compression tag of header 2 as a value of the enumeration
  \<open>WIACompressionType\<close>, whose enumerators the source numbers 0 to 5.
\<close>

definition compression_of_tag :: "u32 \<Rightarrow> WIACompressionType option" where
  "compression_of_tag t =
     (if t = 0 then Some None_ct
      else if t = 1 then Some Purge
      else if t = 2 then Some Bzip2
      else if t = 3 then Some LZMA
      else if t = 4 then Some LZMA2
      else if t = 5 then Some Zstd
      else None)"

text \<open>
  Modelled from the spec: \<open>LZMA2DictionarySize\<close> is declared in the header,
  its body is in WIABlob.cpp. The spec: the dictionary size ``is decoded from
  a single byte p using the standard formula (2 | (p & 1)) << (p/2 + 11) with
  p = 40 meaning 0xffffffff''. The arithmetic is that of \<open>u32\<close>, the result
  type.
\<close>

definition LZMA2DictionarySize :: "u8 \<Rightarrow> u32" where
  "LZMA2DictionarySize p =
     (if p = 40 then 0xffffffff
      else push_bit (unat p div 2 + 11) (2 OR (ucast p AND 1)))"

datatype codec_parameters = NoParameters | LZMAProperties "u8 list" | LZMA2Dictionary u32

text \<open>
  Modelled from the spec: setting up the container's codec from the
  compressor data of header 2, needed to read the tables (step 3 of opening).
  ``LZMA/LZMA2 take filter properties from the 7-byte compressor_data field'';
  an LZMA2 byte \<open>p > 40\<close> is UnsupportedCompression.
\<close>

definition CodecParameters :: "WIACompressionType \<Rightarrow> u8 list \<Rightarrow> error_kind + codec_parameters" where
  "CodecParameters ct data =
     (case ct of
        LZMA \<Rightarrow> Inr (LZMAProperties data)
      | LZMA2 \<Rightarrow>
          (case data of
             [] \<Rightarrow> Inl UnsupportedCompression
           | p # ps \<Rightarrow>
               if 40 < p then Inl UnsupportedCompression
               else Inr (LZMA2Dictionary (LZMA2DictionarySize p)))
      | _ \<Rightarrow> Inr NoParameters)"

text \<open>
  Modelled from the spec: \<open>Create\<close>, the steps of opening in the order the
  spec lists them. Reading and decoding the tables, building the index and
  the overlap check (steps 3 to 5) depend on the codecs and are the parameter
  \<open>LoadTables\<close>, which completes the reader or fails. A failure at any step
  is the result; there is no reader then.
\<close>

definition Create ::
  "(u8 list \<Rightarrow> u8 list) \<Rightarrow>
   (WIAFileReader \<Rightarrow> codec_parameters \<Rightarrow> u8 list \<Rightarrow> error_kind + WIAFileReader) \<Rightarrow>
   u8 list \<Rightarrow> error_kind + WIAFileReader" where
  "Create sha1 LoadTables file =
     (case ReadHeader1 file of Inl e \<Rightarrow> Inl e | Inr h1 \<Rightarrow>
      case CheckHeader1 h1 of Inl e \<Rightarrow> Inl e | Inr rvz \<Rightarrow>
      case ReadHeader2 sha1 h1 file of Inl e \<Rightarrow> Inl e | Inr h2 \<Rightarrow>
      case compression_of_tag (swap32 (compression_type h2)) of
        None \<Rightarrow> Inl UnsupportedCompression
      | Some ct \<Rightarrow>
      case CodecParameters ct (compressor_data h2) of Inl e \<Rightarrow> Inl e | Inr params \<Rightarrow>
      LoadTables \<lparr>m_valid = True, m_rvz = rvz, m_compression_type = ct,
                  m_header_1 = h1, m_header_2 = h2,
                  m_partition_entries = [], m_raw_data_entries = [],
                  m_group_entries = [], m_data_entries = []\<rparr> params file)"

subsection \<open>Sample files\<close>

text \<open>
  A header 1 of the WIA variant that declares version 0.07, below the oldest
  version the reader accepts.
\<close>

definition old_wia_file :: "u8 list" where
  "old_wia_file =
     mem_bytes32 WIA_MAGIC @ [0x00, 0x07, 0x00, 0x00] @ [0x00, 0x07, 0x00, 0x00] @
     [0x00, 0x00, 0x00, 0xdc] @ replicate 56 0"

text \<open>
  The two headers of an RVZ file of version 0.02 with compression LZMA2 and
  the dictionary byte \<open>p\<close>. The hashes are zero.
\<close>

definition lzma2_rvz_file :: "u8 \<Rightarrow> u8 list" where
  "lzma2_rvz_file p =
     mem_bytes32 RVZ_MAGIC @ [0x00, 0x02, 0x00, 0x00] @ [0x00, 0x02, 0x00, 0x00] @
     [0x00, 0x00, 0x00, 0xdc] @ replicate 56 0 @
     [0, 0, 0, 1] @ [0, 0, 0, 4] @ replicate 204 0 @ [1, p, 0, 0, 0, 0, 0, 0]"

section \<open>The output stage of the conversion\<close>

record OutputParametersEntry =
  exception_lists :: "u8 list"
  main_data :: "u8 list"
  reuse_id :: "ReuseID option"
  reused_group :: "GroupEntry option"

text \<open>
  What \<open>Output\<close> works on through its pointer arguments: the output file
  (its bytes so far; a write appends, and fails once the medium is full), the
  shared map \<open>reusable_groups\<close>, the group entries stored through
  \<open>group_entry\<close> so far, and the counter \<open>bytes_written\<close>.
\<close>

record output_state =
  outfile :: "u8 list"
  capacity :: nat
  reusable_groups :: "ReuseID \<rightharpoonup> GroupEntry"
  group_entries :: "GroupEntry list"
  bytes_written :: u64

text \<open>
  Modelled from the spec: \<open>TryReuse\<close> is declared in the header, its body is
  in WIABlob.cpp. ``If reuse_id is set and present in a shared reusable_groups
  map under lock'': the lookup, which on success leaves the group entry found
  in \<open>reused_group\<close>. The output stage is serial, so the lock has no
  counterpart here.
\<close>

definition TryReuse ::
  "(ReuseID \<rightharpoonup> GroupEntry) \<Rightarrow> OutputParametersEntry \<Rightarrow> bool \<times> OutputParametersEntry" where
  "TryReuse groups entry =
     (case reuse_id entry of
        None \<Rightarrow> (False, entry)
      | Some rid \<Rightarrow>
          (case groups rid of
             None \<Rightarrow> (False, entry)
           | Some ge \<Rightarrow> (True, entry\<lparr>reused_group := Some ge\<rparr>)))"

text \<open>
  Modelled from the spec: a write to the output file (\<open>File::IOFile\<close> is not
  part of the sources at hand). It appends, or fails when the medium cannot
  take the bytes.
\<close>

definition WriteArray :: "u8 list \<Rightarrow> output_state \<Rightarrow> output_state option" where
  "WriteArray bs st =
     (if capacity st < length (outfile st) + length bs then None
      else Some (st\<lparr>outfile := outfile st @ bs\<rparr>))"

text \<open>
  Modelled from the spec: \<open>PadTo4\<close> is declared in the header, its body is in
  WIABlob.cpp. ``All chunks are padded to 4 bytes'': zero bytes are written
  until \<open>bytes_written\<close> is a multiple of four.
\<close>

definition PadTo4 :: "output_state \<Rightarrow> output_state option" where
  "PadTo4 st =
     (let n = unat (bytes_written st) mod 4
      in if n = 0 then Some st
         else map_option (\<lambda>s. s\<lparr>bytes_written := bytes_written s + of_nat (4 - n)\<rparr>)
                (WriteArray (replicate (4 - n) 0) st))"

text \<open>
  Modelled from the spec: the size member of a group entry, ``size with
  compressed exceptions flag''. The flag is the high bit; a group without
  bytes has size zero.
\<close>

definition size_with_flag :: "bool \<Rightarrow> nat \<Rightarrow> u32" where
  "size_with_flag compressed_exception_lists n =
     (if n = 0 then 0
      else if compressed_exception_lists then of_nat n OR 0x80000000 else of_nat n)"

text \<open>
  Modelled from the spec: the branch of \<open>Output\<close> that writes a group.
  ``Write (exception_lists || main_data) 4-byte aligned, record the group
  entry {offset>>2, size_with_compressed_exceptions_flag}, and if reuse_id is
  set, insert into reusable_groups.'' The members of the entry are stored
  big-endian like every integer of the format.
\<close>

definition WriteGroup ::
  "bool \<Rightarrow> OutputParametersEntry \<Rightarrow> output_state \<Rightarrow> error_kind + output_state" where
  "WriteGroup compressed_exception_lists entry st =
     (let data = exception_lists entry @ main_data entry;
          ge = \<lparr>GroupEntry.data_offset = swap32 (ucast (drop_bit 2 (bytes_written st))),
                GroupEntry.data_size =
                  swap32 (size_with_flag compressed_exception_lists (length data))\<rparr>
      in case WriteArray data st of
           None \<Rightarrow> Inl IoError
         | Some st1 \<Rightarrow>
             (case PadTo4
                     (st1\<lparr>bytes_written := bytes_written st1 + of_nat (length data),
                          group_entries := group_entries st1 @ [ge],
                          reusable_groups :=
                            (case reuse_id entry of
                               None \<Rightarrow> reusable_groups st1
                             | Some rid \<Rightarrow> (reusable_groups st1)(rid \<mapsto> ge))\<rparr>) of
                None \<Rightarrow> Inl IoError
              | Some st2 \<Rightarrow> Inr st2))"

text \<open>
  Modelled from the spec: what \<open>Output\<close> does for one entry. ``If reuse_id
  is set and present in a shared reusable_groups map under lock: copy that
  group's GroupEntry directly, no bytes written. Else write.''
\<close>

definition OutputEntry ::
  "bool \<Rightarrow> OutputParametersEntry \<Rightarrow> output_state \<Rightarrow> error_kind + output_state" where
  "OutputEntry compressed_exception_lists entry st =
     (case TryReuse (reusable_groups st) entry of
        (found, entry') \<Rightarrow>
          (case (if found then reused_group entry' else None) of
             Some ge \<Rightarrow> Inr (st\<lparr>group_entries := group_entries st @ [ge]\<rparr>)
           | None \<Rightarrow> WriteGroup compressed_exception_lists entry st))"

text \<open>
  Modelled from the spec: \<open>Output\<close> is declared in the header, its body is in
  WIABlob.cpp. The entries of one task are handled in order; the first
  failure ends the conversion.
\<close>

fun Output ::
  "bool \<Rightarrow> OutputParametersEntry list \<Rightarrow> output_state \<Rightarrow> error_kind + output_state" where
  "Output c [] st = Inr st"
| "Output c (entry # entries) st =
     (case OutputEntry c entry st of
        Inl e \<Rightarrow> Inl e
      | Inr st' \<Rightarrow> Output c entries st')"

subsection \<open>Sample run\<close>

text \<open>
  Two groups that consist of the byte 0x55 throughout, with a five-byte
  payload, written after eight bytes of headers.
\<close>

definition id_0x55 :: ReuseID where
  "id_0x55 = \<lparr>partition_key = 0, data_size = 0x200000, encrypted = False, value = 0x55\<rparr>"

definition entry_0x55 :: OutputParametersEntry where
  "entry_0x55 =
     \<lparr>exception_lists = [], main_data = [0x28, 0xB5, 0x2F, 0xFD, 0x55],
      reuse_id = Some id_0x55, reused_group = None\<rparr>"

definition group_0x55 :: GroupEntry where
  "group_0x55 = \<lparr>GroupEntry.data_offset = 0x02000000, GroupEntry.data_size = 0x05000000\<rparr>"

definition start_state :: output_state where
  "start_state =
     \<lparr>outfile = replicate 8 0, capacity = 64, reusable_groups = Map.empty,
      group_entries = [], bytes_written = 8\<rparr>"

definition state_after_first :: output_state where
  "state_after_first =
     \<lparr>outfile = replicate 8 0 @ [0x28, 0xB5, 0x2F, 0xFD, 0x55] @ replicate 3 0,
      capacity = 64,
      reusable_groups = [id_0x55 \<mapsto> group_0x55],
      group_entries = [group_0x55], bytes_written = 16\<rparr>"

section \<open>Properties\<close>

subsection \<open>Byte order\<close>

text \<open>
  Swapping the bytes of a host integer gives the value its memory image has
  when read most significant byte first. Both facts are shown bit by bit.
\<close>

lemma masks32:
  "(0x00FF0000 :: u32) = push_bit 16 (mask 8)"
  "(0x0000FF00 :: u32) = push_bit 8 (mask 8)"
  by (simp_all add: mask_eq_exp_minus_1)

lemma masks64:
  "(0x00FF000000000000 :: u64) = push_bit 48 (mask 8)"
  "(0x0000FF0000000000 :: u64) = push_bit 40 (mask 8)"
  "(0x000000FF00000000 :: u64) = push_bit 32 (mask 8)"
  "(0x00000000FF000000 :: u64) = push_bit 24 (mask 8)"
  "(0x0000000000FF0000 :: u64) = push_bit 16 (mask 8)"
  "(0x000000000000FF00 :: u64) = push_bit 8 (mask 8)"
  by (simp_all add: mask_eq_exp_minus_1)

lemma byte_index:
  fixes n :: nat
  obtains k j where "n = 8 * k + j" and "j < 8"
proof
  show "n = 8 * (n div 8) + n mod 8" by simp
  show "n mod 8 < 8" by simp
qed

lemma swap32_be32: "swap32 w = be32 (mem_bytes32 w)"
proof (rule bit_word_eqI)
  fix n assume len: "n < LENGTH(32)"
  obtain k j where n: "n = 8 * k + j" and j: "j < 8"
    by (rule byte_index)
  from len n have "k = 0 \<or> k = 1 \<or> k = 2 \<or> k = 3"
    by simp arith
  then show "bit (swap32 w) n = bit (be32 (mem_bytes32 w)) n"
    unfolding swap32_def be32_def mem_bytes32_def masks32 n using j
    by (elim disjE) (auto simp add: bit_simps dest: bit_imp_le_length)
qed

lemma swap64_be64: "swap64 w = be64 (mem_bytes64 w)"
proof (rule bit_word_eqI)
  fix n assume len: "n < LENGTH(64)"
  obtain k j where n: "n = 8 * k + j" and j: "j < 8"
    by (rule byte_index)
  from len n have "k = 0 \<or> k = 1 \<or> k = 2 \<or> k = 3 \<or> k = 4 \<or> k = 5 \<or> k = 6 \<or> k = 7"
    by simp arith
  then show "bit (swap64 w) n = bit (be64 (mem_bytes64 w)) n"
    unfolding swap64_def be64_def mem_bytes64_def masks64 n using j
    by (elim disjE) (auto simp add: bit_simps dest: bit_imp_le_length)
qed

text \<open>
  Reading a member back from its memory image gives the value that was
  stored.
\<close>

lemma load32_mem_bytes32: "load32 (mem_bytes32 w) = w"
proof (rule bit_word_eqI)
  fix n assume len: "n < LENGTH(32)"
  obtain k j where n: "n = 8 * k + j" and j: "j < 8"
    by (rule byte_index)
  from len n have "k = 0 \<or> k = 1 \<or> k = 2 \<or> k = 3"
    by simp arith
  then show "bit (load32 (mem_bytes32 w)) n = bit w n"
    unfolding load32_def be32_def mem_bytes32_def n using j
    by (elim disjE) (auto simp add: bit_simps dest: bit_imp_le_length)
qed

lemma load64_mem_bytes64: "load64 (mem_bytes64 w) = w"
proof (rule bit_word_eqI)
  fix n assume len: "n < LENGTH(64)"
  obtain k j where n: "n = 8 * k + j" and j: "j < 8"
    by (rule byte_index)
  from len n have "k = 0 \<or> k = 1 \<or> k = 2 \<or> k = 3 \<or> k = 4 \<or> k = 5 \<or> k = 6 \<or> k = 7"
    by simp arith
  then show "bit (load64 (mem_bytes64 w)) n = bit w n"
    unfolding load64_def be64_def mem_bytes64_def n using j
    by (elim disjE) (auto simp add: bit_simps dest: bit_imp_le_length)
qed

subsection \<open>Magic numbers\<close>

text \<open>
  Claim C4. The two variants are identified by the 32-bit constants 0x01414957
  and 0x015A5652. In the memory image of the host, which is what the file
  holds, they read \<open>W I A 1\<close> and \<open>R V Z 1\<close>, so the first byte of a file is
  the letter W or the letter R.
\<close>

theorem magic_numbers:
  "WIA_MAGIC = 0x01414957 \<and> RVZ_MAGIC = 0x015A5652 \<and>
   mem_bytes32 WIA_MAGIC = [of_char CHR ''W'', of_char CHR ''I'', of_char CHR ''A'', 0x01] \<and>
   mem_bytes32 RVZ_MAGIC = [of_char CHR ''R'', of_char CHR ''V'', of_char CHR ''Z'', 0x01] \<and>
   hd (mem_bytes32 WIA_MAGIC) = of_char CHR ''W'' \<and>
   hd (mem_bytes32 RVZ_MAGIC) = of_char CHR ''R''"
  by (simp add: WIA_MAGIC_def RVZ_MAGIC_def mem_bytes32_def drop_bit_eq_div)

subsection \<open>Sizes of the on-disk records\<close>

text \<open>
  Claim C6. Under the one-byte packing of the source every on-disk record has
  the size its \<open>static_assert\<close> names, which is the plain sum of its members:
  0x48 for header 1, 0xdc for header 2, 0x30 for a partition entry (a 16-byte
  key and two partition data entries of 0x10 bytes), 0x18 for a raw data
  entry, 8 for a group entry, 0x16 for a hash exception entry (a 16-bit offset
  and a 20-byte SHA-1) and 8 for a purge segment.
\<close>

theorem struct_sizes:
  "sizeof (Struct WIAHeader1_fields) = 0x48 \<and>
   sizeof (Struct WIAHeader2_fields) = 0xdc \<and>
   sizeof (Struct PartitionDataEntry_fields) = 0x10 \<and>
   sizeof WiiKey = 16 \<and>
   sizeof (Struct PartitionEntry_fields) = 0x30 \<and>
   sizeof (Struct PartitionEntry_fields) =
     sizeof WiiKey + 2 * sizeof (Struct PartitionDataEntry_fields) \<and>
   sizeof (Struct RawDataEntry_fields) = 0x18 \<and>
   sizeof (Struct GroupEntry_fields) = 8 \<and>
   sizeof (Struct HashExceptionEntry_fields) = 0x16 \<and>
   sizeof (Struct HashExceptionEntry_fields) = sizeof U16 + sizeof SHA1 \<and>
   sizeof SHA1 = 20 \<and>
   sizeof (Struct PurgeSegment_fields) = 8"
  by (simp add: WIAHeader1_fields_def WIAHeader2_fields_def PartitionDataEntry_fields_def
      PartitionEntry_fields_def RawDataEntry_fields_def GroupEntry_fields_def
      HashExceptionEntry_fields_def PurgeSegment_fields_def SHA1_def WiiKey_def)

text \<open>
  The offsets at which \<open>ReadHeader1\<close> and \<open>ReadHeader2\<close> take the members
  are the offsets of the packed structs.
\<close>

lemma WIAHeader1_offsets:
  "map (offsetof WIAHeader1_fields)
     [''magic'', ''version'', ''version_compatible'', ''header_2_size'', ''header_2_hash'',
      ''iso_file_size'', ''wia_file_size'', ''header_1_hash''] =
   map Some [0, 4, 8, 12, 16, 36, 44, 52]"
  by code_simp

lemma WIAHeader2_offsets:
  "map (offsetof WIAHeader2_fields)
     [''disc_type'', ''compression_type'', ''compression_level'', ''chunk_size'',
      ''disc_header'', ''number_of_partition_entries'', ''partition_entry_size'',
      ''partition_entries_offset'', ''partition_entries_hash'',
      ''number_of_raw_data_entries'', ''raw_data_entries_offset'', ''raw_data_entries_size'',
      ''number_of_group_entries'', ''group_entries_offset'', ''group_entries_size'',
      ''compressor_data_size'', ''compressor_data''] =
   map Some [0, 4, 8, 12, 16, 144, 148, 152, 160, 180, 184, 192, 196, 200, 208, 212, 213]"
  by code_simp

subsection \<open>Accessors of the reader\<close>

text \<open>
  Claim C8. \<open>GetRawSize\<close> is the byte-swapped \<open>wia_file_size\<close> of header 1,
  \<open>GetDataSize\<close> the byte-swapped \<open>iso_file_size\<close> of header 1 and
  \<open>GetBlockSize\<close> the byte-swapped \<open>chunk_size\<close> of header 2, widened to 64
  bits. Each is the big-endian reading of the bytes the field has in the file.
\<close>

theorem size_accessors:
  "GetRawSize r = swap64 (wia_file_size (m_header_1 r)) \<and>
   GetRawSize r = be64 (mem_bytes64 (wia_file_size (m_header_1 r))) \<and>
   GetDataSize r = swap64 (iso_file_size (m_header_1 r)) \<and>
   GetDataSize r = be64 (mem_bytes64 (iso_file_size (m_header_1 r))) \<and>
   GetBlockSize r = ucast (swap32 (chunk_size (m_header_2 r))) \<and>
   GetBlockSize r = ucast (be32 (mem_bytes32 (chunk_size (m_header_2 r))))"
  by (simp add: GetRawSize_def GetDataSize_def GetBlockSize_def swap64_be64 swap32_be32)

text \<open>
  Claim C10. Whatever the reader holds, \<open>IsDataSizeAccurate\<close> answers true and
  \<open>HasFastRandomAccessInBlock\<close> answers false.
\<close>

theorem constant_answers:
  "IsDataSizeAccurate r = True \<and> HasFastRandomAccessInBlock r = False"
  by (simp add: IsDataSizeAccurate_def HasFastRandomAccessInBlock_def)

subsection \<open>Order of the reuse identifiers\<close>

lemma tuple_less_lex: "tuple_less t u = (t < u)"
  by (cases t; cases u) (auto simp add: less_prod_def)

lemma tuple_eq_iff: "tuple_eq t u = (t = u)"
  by (cases t; cases u) auto

text \<open>
  Claim C7. The operators of \<open>ReuseID\<close> are a total order, the lexicographic
  one on (partition_key, data_size, encrypted, value): of \<open>a < b\<close>,
  \<open>a == b\<close> and \<open>a > b\<close> exactly one holds; \<open><=\<close>, \<open>>=\<close> and \<open>!=\<close> are
  the negations of \<open>>\<close>, \<open><\<close> and \<open>==\<close>; two identifiers are equal
  exactly when their four members are; \<open><\<close> and \<open><=\<close> are the strict and
  the reflexive lexicographic order of the member tuples, hence transitive,
  antisymmetric and total.
\<close>

theorem reuse_id_total_order:
  fixes a b c :: ReuseID
  shows
  "(ReuseID_less a b \<and> \<not> ReuseID_eq a b \<and> \<not> ReuseID_greater a b \<or>
    \<not> ReuseID_less a b \<and> ReuseID_eq a b \<and> \<not> ReuseID_greater a b \<or>
    \<not> ReuseID_less a b \<and> \<not> ReuseID_eq a b \<and> ReuseID_greater a b) \<and>
   ReuseID_le a b = (\<not> ReuseID_greater a b) \<and>
   ReuseID_ge a b = (\<not> ReuseID_less a b) \<and>
   ReuseID_ne a b = (\<not> ReuseID_eq a b) \<and>
   ReuseID_eq a b =
     (partition_key a = partition_key b \<and> ReuseID.data_size a = ReuseID.data_size b \<and>
      encrypted a = encrypted b \<and> value a = value b) \<and>
   ReuseID_less a b = (tie a < tie b) \<and>
   ReuseID_greater a b = (tie b < tie a) \<and>
   ReuseID_le a b = (tie a \<le> tie b) \<and>
   ReuseID_ge a b = (tie b \<le> tie a) \<and>
   (ReuseID_less a b \<longrightarrow> ReuseID_less b c \<longrightarrow> ReuseID_less a c) \<and>
   (ReuseID_le a b \<longrightarrow> ReuseID_le b c \<longrightarrow> ReuseID_le a c) \<and>
   (ReuseID_le a b \<longrightarrow> ReuseID_le b a \<longrightarrow> ReuseID_eq a b) \<and>
   (ReuseID_le a b \<or> ReuseID_le b a) \<and>
   ReuseID_le a a \<and> \<not> ReuseID_less a a"
proof -
  have comps: "(partition_key a = partition_key b \<and> ReuseID.data_size a = ReuseID.data_size b \<and>
      encrypted a = encrypted b \<and> value a = value b) = (tie a = tie b)"
    by (simp add: tie_def)
  show ?thesis
    unfolding ReuseID_le_def ReuseID_ge_def ReuseID_ne_def ReuseID_eq_def ReuseID_less_def
      ReuseID_greater_def tuple_greater_def tuple_less_lex tuple_eq_iff comps
    by (intro conjI impI) (simp_all add: not_less, auto)
qed

theorem reuse_id_total_order_witness:
  "ReuseID_less \<lparr>partition_key = 0, data_size = 0x200000, encrypted = False, value = 0x55\<rparr>
                \<lparr>partition_key = 0, data_size = 0x200000, encrypted = True, value = 0x00\<rparr> \<and>
   ReuseID_less \<lparr>partition_key = 0, data_size = 0x200000, encrypted = True, value = 0x00\<rparr>
                \<lparr>partition_key = 4096, data_size = 0x8000, encrypted = False, value = 0x00\<rparr> \<and>
   ReuseID_less \<lparr>partition_key = 0, data_size = 0x200000, encrypted = False, value = 0x55\<rparr>
                \<lparr>partition_key = 4096, data_size = 0x8000, encrypted = False, value = 0x00\<rparr> \<and>
   ReuseID_le \<lparr>partition_key = 0, data_size = 0x200000, encrypted = False, value = 0x55\<rparr>
              \<lparr>partition_key = 0, data_size = 0x200000, encrypted = True, value = 0x00\<rparr>"
  using reuse_id_total_order
    [of "\<lparr>partition_key = 0, data_size = 0x200000, encrypted = False, value = 0x55\<rparr>"
        "\<lparr>partition_key = 0, data_size = 0x200000, encrypted = True, value = 0x00\<rparr>"
        "\<lparr>partition_key = 4096, data_size = 0x8000, encrypted = False, value = 0x00\<rparr>"]
  by (simp add: ReuseID_less_def ReuseID_le_def ReuseID_greater_def tuple_greater_def tie_def)

subsection \<open>Opening a container\<close>

lemma magic_distinct: "WIA_MAGIC \<noteq> RVZ_MAGIC"
  by (simp add: WIA_MAGIC_def RVZ_MAGIC_def)

lemma CheckHeader1_rejects:
  assumes "(magic h1 = WIA_MAGIC \<and>
             (swap32 (version h1) < 0x00080000 \<or> 0x01000000 < swap32 (version_compatible h1))) \<or>
           (magic h1 = RVZ_MAGIC \<and>
             (swap32 (version h1) < 0x00020000 \<or> 0x00020000 < swap32 (version_compatible h1)))"
  shows "CheckHeader1 h1 = Inl CorruptHeader \<or> CheckHeader1 h1 = Inl UnsupportedCompression"
  using assms magic_distinct
  by (auto simp add: CheckHeader1_def Let_def WIA_VERSION_def WIA_VERSION_READ_COMPATIBLE_def
      RVZ_VERSION_def RVZ_VERSION_READ_COMPATIBLE_def)

text \<open>
  Claim C3. The version constants are 0x01000000 (current and
  write-compatible) and 0x00080000 (read-compatible) for WIA and 0x00020000
  throughout for RVZ. A file whose header 1 stores a version below the
  read-compatible constant of its variant, or a compatible version above the
  current version of its variant, is rejected: \<open>Create\<close> fails with
  CorruptHeader or UnsupportedCompression and returns no reader, whatever the
  rest of the file holds.
\<close>

theorem version_gating:
  assumes "ReadHeader1 file = Inr h1"
    and "(magic h1 = WIA_MAGIC \<and>
           (swap32 (version h1) < 0x00080000 \<or> 0x01000000 < swap32 (version_compatible h1))) \<or>
         (magic h1 = RVZ_MAGIC \<and>
           (swap32 (version h1) < 0x00020000 \<or> 0x00020000 < swap32 (version_compatible h1)))"
  shows "WIA_VERSION = 0x01000000 \<and> WIA_VERSION_WRITE_COMPATIBLE = 0x01000000 \<and>
         WIA_VERSION_READ_COMPATIBLE = 0x00080000 \<and>
         RVZ_VERSION = 0x00020000 \<and> RVZ_VERSION_WRITE_COMPATIBLE = 0x00020000 \<and>
         RVZ_VERSION_READ_COMPATIBLE = 0x00020000 \<and>
         (Create sha1 LoadTables file = Inl CorruptHeader \<or>
          Create sha1 LoadTables file = Inl UnsupportedCompression) \<and>
         (\<forall>r. Create sha1 LoadTables file \<noteq> Inr r)"
proof -
  from CheckHeader1_rejects [OF assms(2)]
  have "Create sha1 LoadTables file = Inl CorruptHeader \<or>
        Create sha1 LoadTables file = Inl UnsupportedCompression"
    by (auto simp add: Create_def assms(1))
  then show ?thesis
    by (auto simp add: WIA_VERSION_def WIA_VERSION_WRITE_COMPATIBLE_def
        WIA_VERSION_READ_COMPATIBLE_def RVZ_VERSION_def RVZ_VERSION_WRITE_COMPATIBLE_def
        RVZ_VERSION_READ_COMPATIBLE_def)
qed

theorem version_gating_witness:
  "Create (\<lambda>bs. replicate 20 0) (\<lambda>r p f. Inr r) old_wia_file = Inl CorruptHeader"
proof -
  have h: "ReadHeader1 old_wia_file =
      Inr \<lparr>magic = 0x01414957, version = 0x00000700, version_compatible = 0x00000700,
           header_2_size = 0xdc000000, header_2_hash = replicate 20 0,
           iso_file_size = 0, wia_file_size = 0, header_1_hash = replicate 20 0\<rparr>"
    by code_simp
  have v: "swap32 0x00000700 = 0x00070000"
    by (simp add: swap32_def)
  have c: "Create (\<lambda>bs. replicate 20 0) (\<lambda>r p f. Inr r) old_wia_file \<noteq>
      Inl UnsupportedCompression"
    by code_simp
  show ?thesis
    using version_gating [OF h, of "\<lambda>bs. replicate 20 0" "\<lambda>r p f. Inr r"] v c
    by (simp add: WIA_MAGIC_def)
qed

subsection \<open>The LZMA2 dictionary size\<close>

text \<open>
  In 32 bits the formula alone is 0 at \<open>p = 40\<close>: the value 0xffffffff there
  is a case of its own.
\<close>

lemma lzma2_formula_at_40:
  "push_bit (unat (40 :: u8) div 2 + 11) (2 OR (ucast (40 :: u8) AND 1) :: u32) = 0"
  by simp

lemma lzma2_low_bits:
  "(2 OR (ucast (p :: u8) AND 1) :: u32) = (if even (unat p) then 2 else 3)"
proof -
  have "odd (ucast p :: u32) = odd (unat p)"
    by (simp flip: bit_0 add: bit_ucast_iff bit_unsigned_iff)
  then have "(ucast p AND 1 :: u32) = of_bool (odd (unat p))"
    by (simp add: and_one_eq mod_2_eq_odd)
  then show ?thesis by simp
qed

lemma unat_push_bit_no_wrap:
  fixes w :: u32
  assumes "unat w * 2 ^ n < 2 ^ 32"
  shows "unat (push_bit n w) = unat w * 2 ^ n"
proof -
  have "unat (push_bit n w) = take_bit LENGTH(32) (push_bit n (unat w))"
    by (rule unsigned_push_bit_eq)
  also have "\<dots> = push_bit n (unat w)"
    using assms by (simp add: take_bit_nat_eq_self_iff push_bit_eq_mult)
  also have "\<dots> = unat w * 2 ^ n"
    by (simp add: push_bit_eq_mult)
  finally show ?thesis .
qed

lemma lzma2_no_wrap:
  assumes "p < (40 :: u8)"
  shows "unat (LZMA2DictionarySize p) = (2 + unat p mod 2) * 2 ^ (unat p div 2 + 11)"
proof -
  from assms have lt: "unat p < 40"
    by (simp add: word_less_nat_alt)
  then have n: "unat p div 2 + 11 \<le> 30" by simp
  have ne: "p \<noteq> 40" using assms by auto
  have "(2::nat) ^ (unat p div 2 + 11) \<le> 2 ^ 30"
    using n by (intro power_increasing) simp_all
  then have b3: "(3::nat) * 2 ^ (unat p div 2 + 11) < 2 ^ 32" by simp
  then have b2: "(2::nat) * 2 ^ (unat p div 2 + 11) < 2 ^ 32" by simp
  show ?thesis
  proof (cases "even (unat p)")
    case True
    then have "unat p mod 2 = 0" by presburger
    moreover have "unat (push_bit (unat p div 2 + 11) (2 :: u32)) = 2 * 2 ^ (unat p div 2 + 11)"
      using b2 unat_push_bit_no_wrap [of 2 "unat p div 2 + 11"] by simp
    ultimately show ?thesis
      using True ne by (simp add: LZMA2DictionarySize_def lzma2_low_bits)
  next
    case False
    then have "unat p mod 2 = 1" by presburger
    moreover have "unat (push_bit (unat p div 2 + 11) (3 :: u32)) = 3 * 2 ^ (unat p div 2 + 11)"
      using b3 unat_push_bit_no_wrap [of 3 "unat p div 2 + 11"] by simp
    ultimately show ?thesis
      using False ne by (simp add: LZMA2DictionarySize_def lzma2_low_bits)
  qed
qed

text \<open>
  Claim C5. For a byte \<open>p\<close> below 40, \<open>LZMA2DictionarySize p\<close> is
  \<open>(2 | (p & 1)) << (p/2 + 11)\<close>, and the shift does not leave 32 bits: the
  value is \<open>(2 + p mod 2) * 2 ^ (p div 2 + 11)\<close>. \<open>LZMA2DictionarySize 40\<close> is
  0xffffffff. Opening a file whose headers are sound, whose compression is
  LZMA2 and whose dictionary byte is above 40 fails with
  UnsupportedCompression.
\<close>

theorem lzma2_dictionary:
  "(p < 40 \<longrightarrow>
      LZMA2DictionarySize p = push_bit (unat p div 2 + 11) (2 OR (ucast p AND 1)) \<and>
      unat (LZMA2DictionarySize p) = (2 + unat p mod 2) * 2 ^ (unat p div 2 + 11)) \<and>
   LZMA2DictionarySize 40 = 0xffffffff \<and>
   (40 < p \<longrightarrow> ReadHeader1 file = Inr h1 \<longrightarrow> CheckHeader1 h1 = Inr rvz \<longrightarrow>
      ReadHeader2 sha1 h1 file = Inr h2 \<longrightarrow>
      compression_of_tag (swap32 (compression_type h2)) = Some LZMA2 \<longrightarrow>
      compressor_data h2 = p # rest \<longrightarrow>
      Create sha1 LoadTables file = Inl UnsupportedCompression)"
proof (intro conjI impI)
  assume "p < 40"
  then show "LZMA2DictionarySize p = push_bit (unat p div 2 + 11) (2 OR (ucast p AND 1))"
    by (auto simp add: LZMA2DictionarySize_def)
next
  assume "p < 40"
  then show "unat (LZMA2DictionarySize p) = (2 + unat p mod 2) * 2 ^ (unat p div 2 + 11)"
    by (rule lzma2_no_wrap)
next
  show "LZMA2DictionarySize 40 = 0xffffffff"
    by (simp add: LZMA2DictionarySize_def)
next
  assume "40 < p" "ReadHeader1 file = Inr h1" "CheckHeader1 h1 = Inr rvz"
    "ReadHeader2 sha1 h1 file = Inr h2"
    "compression_of_tag (swap32 (compression_type h2)) = Some LZMA2"
    "compressor_data h2 = p # rest"
  then show "Create sha1 LoadTables file = Inl UnsupportedCompression"
    by (simp add: Create_def CodecParameters_def)
qed

theorem lzma2_dictionary_witness:
  "LZMA2DictionarySize 39 = 0xC0000000 \<and>
   Create (\<lambda>bs. replicate 20 0) (\<lambda>r p f. Inr r) (lzma2_rvz_file 41) =
     Inl UnsupportedCompression"
proof -
  let ?h1 = "\<lparr>magic = 0x015A5652, version = 0x00000200, version_compatible = 0x00000200,
           header_2_size = 0xdc000000, header_2_hash = replicate 20 0,
           iso_file_size = 0, wia_file_size = 0, header_1_hash = replicate 20 0\<rparr>"
  let ?h2 = "\<lparr>disc_type = 0x01000000, compression_type = 0x04000000,
           compression_level = 0, chunk_size = 0, disc_header = replicate 0x80 0,
           number_of_partition_entries = 0, partition_entry_size = 0,
           partition_entries_offset = 0, partition_entries_hash = replicate 20 0,
           number_of_raw_data_entries = 0, raw_data_entries_offset = 0,
           raw_data_entries_size = 0, number_of_group_entries = 0,
           group_entries_offset = 0, group_entries_size = 0,
           compressor_data_size = 1, compressor_data = [41, 0, 0, 0, 0, 0, 0]\<rparr>"
  have h1: "ReadHeader1 (lzma2_rvz_file 41) = Inr ?h1"
    by code_simp
  have c1: "CheckHeader1 ?h1 = Inr True"
    by code_simp
  have h2: "ReadHeader2 (\<lambda>bs. replicate 20 0) ?h1 (lzma2_rvz_file 41) = Inr ?h2"
    by code_simp
  have t: "compression_of_tag (swap32 (compression_type ?h2)) = Some LZMA2"
    by code_simp
  have d: "compressor_data ?h2 = 41 # [0, 0, 0, 0, 0, 0]"
    by simp
  have p: "(39 :: u8) < 40" "(40 :: u8) < 41" by simp_all
  from lzma2_dictionary [of 39] p(1) have a: "LZMA2DictionarySize 39 = 0xC0000000"
    by simp
  from lzma2_dictionary [of 41 "lzma2_rvz_file 41" ?h1 True "\<lambda>bs. replicate 20 0" ?h2
      "[0, 0, 0, 0, 0, 0]" "\<lambda>r p f. Inr r"] p(2) h1 c1 h2 t d
  have "Create (\<lambda>bs. replicate 20 0) (\<lambda>r p f. Inr r) (lzma2_rvz_file 41) =
      Inl UnsupportedCompression"
    by simp
  with a show ?thesis by simp
qed

subsection \<open>Reuse of groups\<close>

lemma PadTo4_keeps:
  "PadTo4 st = Some st' \<Longrightarrow>
     group_entries st' = group_entries st \<and> reusable_groups st' = reusable_groups st"
  by (auto simp add: PadTo4_def WriteArray_def Let_def split: if_splits)

lemma OutputEntry_step:
  assumes "OutputEntry c e st = Inr st'"
  shows "\<exists>ge. group_entries st' = group_entries st @ [ge] \<and>
           (\<forall>rid. reuse_id e = Some rid \<longrightarrow> reusable_groups st' rid = Some ge) \<and>
           (\<forall>k v. reusable_groups st k = Some v \<longrightarrow> reusable_groups st' k = Some v)"
  using assms
  by (auto simp add: OutputEntry_def TryReuse_def WriteGroup_def WriteArray_def Let_def
      split: option.splits if_splits dest!: PadTo4_keeps)

text \<open>
  An identifier that is in the map when a run of \<open>Output\<close> starts gives every
  entry of the run that carries it the group entry the map holds.
\<close>

lemma Output_known:
  "Output c es st = Inr st' \<Longrightarrow>
     (\<exists>ges. group_entries st' = group_entries st @ ges \<and> length ges = length es \<and>
        (\<forall>i rid v. i < length es \<longrightarrow> reuse_id (es ! i) = Some rid \<longrightarrow>
            reusable_groups st rid = Some v \<longrightarrow> ges ! i = v))"
proof (induction es arbitrary: st)
  case Nil
  then show ?case by simp
next
  case (Cons e es)
  from Cons.prems obtain st1 where s1: "OutputEntry c e st = Inr st1"
    and rest: "Output c es st1 = Inr st'"
    by (auto split: sum.splits)
  from OutputEntry_step [OF s1] obtain ge where
    ge: "group_entries st1 = group_entries st @ [ge]"
    and own: "\<forall>rid. reuse_id e = Some rid \<longrightarrow> reusable_groups st1 rid = Some ge"
    and mono: "\<forall>k v. reusable_groups st k = Some v \<longrightarrow> reusable_groups st1 k = Some v"
    by blast
  from Cons.IH [OF rest] obtain ges where
    ges: "group_entries st' = group_entries st1 @ ges" "length ges = length es"
    and known: "\<forall>i rid v. i < length es \<longrightarrow> reuse_id (es ! i) = Some rid \<longrightarrow>
            reusable_groups st1 rid = Some v \<longrightarrow> ges ! i = v"
    by blast
  have "\<forall>i rid v. i < length (e # es) \<longrightarrow> reuse_id ((e # es) ! i) = Some rid \<longrightarrow>
            reusable_groups st rid = Some v \<longrightarrow> (ge # ges) ! i = v"
  proof (intro allI impI)
    fix i rid v
    assume i: "i < length (e # es)" and r: "reuse_id ((e # es) ! i) = Some rid"
      and v: "reusable_groups st rid = Some v"
    show "(ge # ges) ! i = v"
    proof (cases i)
      case 0
      with r own mono v show ?thesis by auto
    next
      case (Suc j)
      with i r known mono v show ?thesis by auto
    qed
  qed
  with ge ges show ?case
    by (intro exI [of _ "ge # ges"]) simp
qed

text \<open>
  Two entries of one run with the same identifier get the same group entry.
\<close>

lemma Output_reuse_same_entry:
  assumes "Output c es st = Inr st'"
    and "i < j" and "j < length es"
    and "reuse_id (es ! i) = Some rid" and "reuse_id (es ! j) = Some rid"
  shows "group_entries st' ! (length (group_entries st) + i) =
         group_entries st' ! (length (group_entries st) + j)"
  using assms
proof (induction es arbitrary: st i j)
  case Nil
  then show ?case by simp
next
  case (Cons e es)
  from Cons.prems(1) obtain st1 where s1: "OutputEntry c e st = Inr st1"
    and rest: "Output c es st1 = Inr st'"
    by (auto split: sum.splits)
  from OutputEntry_step [OF s1] obtain ge where
    ge: "group_entries st1 = group_entries st @ [ge]"
    and own: "\<forall>rid. reuse_id e = Some rid \<longrightarrow> reusable_groups st1 rid = Some ge"
    by blast
  from Output_known [OF rest] obtain ges where
    ges: "group_entries st' = group_entries st1 @ ges" "length ges = length es"
    and known: "\<forall>i rid v. i < length es \<longrightarrow> reuse_id (es ! i) = Some rid \<longrightarrow>
            reusable_groups st1 rid = Some v \<longrightarrow> ges ! i = v"
    by blast
  from Cons.prems(2) obtain j' where j': "j = Suc j'" by (cases j) auto
  show ?case
  proof (cases i)
    case 0
    with Cons.prems own have "reusable_groups st1 rid = Some ge" by simp
    with known Cons.prems j' have "ges ! j' = ge" by auto
    with 0 j' ge ges show ?thesis
      by (simp add: nth_append)
  next
    case (Suc i')
    with Cons.prems j' Cons.IH [OF rest, of i' j'] ge show ?thesis
      by simp
  qed
qed

text \<open>
  A hit in \<open>reusable_groups\<close> stores the group entry the map holds and
  writes nothing: the file, the byte counter and the map stay as they are.
\<close>

lemma reuse_hit_copies_entry:
  assumes "reuse_id A = Some rid" and "reusable_groups st rid = Some B"
  shows "OutputEntry c A st = Inr (st\<lparr>group_entries := group_entries st @ [B]\<rparr>)"
  using assms by (simp add: OutputEntry_def TryReuse_def)

text \<open>
  The sample run: the first group of 0x55 bytes is written and registered,
  the second gets the first one's group entry and adds no byte to the file.
\<close>

lemma sample_run:
  "Output False [entry_0x55, entry_0x55] start_state =
     Inr (state_after_first\<lparr>group_entries := [group_0x55, group_0x55]\<rparr>)"
proof -
  have a: "reuse_id entry_0x55 = Some id_0x55"
    by (simp add: entry_0x55_def)
  have b: "reusable_groups state_after_first id_0x55 = Some group_0x55"
    by (simp add: state_after_first_def)
  have s1: "OutputEntry False entry_0x55 start_state = Inr state_after_first"
    by (simp add: OutputEntry_def TryReuse_def WriteGroup_def WriteArray_def PadTo4_def
        size_with_flag_def swap32_def entry_0x55_def start_state_def state_after_first_def
        group_0x55_def Let_def)
  have s2: "OutputEntry False entry_0x55 state_after_first =
      Inr (state_after_first\<lparr>group_entries := [group_0x55, group_0x55]\<rparr>)"
    using reuse_hit_copies_entry [OF a b, of False]
    by (simp add: state_after_first_def)
  show ?thesis
    by (simp add: s1 s2)
qed

end
